theory Spec2Isabelle
  imports Complex_Main
begin

section \<open>The carpool marketplace of \<^verbatim>\<open>src/App.js\<close>\<close>

text \<open>
  The application is one React component whose handlers read the component's local
  state (the last snapshot the store's listeners delivered) and write to a remote
  document store. The embedding keeps both sides apart: the record \<open>app\<close> below
  holds the local views next to the store's collections, every handler is a function
  from the state to the notice it shows (the argument of \<^verbatim>\<open>showMessage\<close>) and the
  state it leaves, and the listeners are the function \<open>onSnapshot\<close>.

  JavaScript values are modelled as follows. A string is a \<open>string\<close>; the model's
  characters are bytes, so \<^verbatim>\<open>toLowerCase\<close> and \<^verbatim>\<open>trim\<close> act on ASCII letters and
  ASCII white space. The result of \<^verbatim>\<open>parseInt\<close> is an \<open>int option\<close> and the result
  of \<^verbatim>\<open>parseFloat\<close> a \<open>real option\<close>, \<open>None\<close> being \<^verbatim>\<open>NaN\<close>; wallet balances are
  reals, the rounding of IEEE doubles is not modelled. A field that holds an array or
  is missing is a \<open>list option\<close>. Wall-clock time stamps (\<^verbatim>\<open>createdAt\<close>,
  \<^verbatim>\<open>requestedAt\<close>) are left out: no handler reads them.
\<close>

subsection \<open>Strings\<close>

text \<open>\<^verbatim>\<open>String.prototype.toLowerCase\<close>, on ASCII letters.\<close>

definition lowerChar :: "char \<Rightarrow> char" where
  "lowerChar c =
     (case map_of (zip ''ABCDEFGHIJKLMNOPQRSTUVWXYZ'' ''abcdefghijklmnopqrstuvwxyz'') c of
        Some l \<Rightarrow> l
      | None \<Rightarrow> c)"

definition toLowerCase :: "string \<Rightarrow> string" where
  "toLowerCase s = map lowerChar s"

text \<open>\<^verbatim>\<open>s.startsWith(t)\<close> and \<^verbatim>\<open>s.includes(t)\<close>: \<open>t\<close> occurs in \<open>s\<close> as a
  contiguous run of characters; the empty string occurs in every string.\<close>

definition startsWith :: "string \<Rightarrow> string \<Rightarrow> bool" where
  "startsWith s t = (take (length t) s = t)"

fun str_includes :: "string \<Rightarrow> string \<Rightarrow> bool" where
  "str_includes [] t = (t = [])"
| "str_includes (c # s) t = (startsWith (c # s) t \<or> str_includes s t)"

text \<open>\<^verbatim>\<open>String.prototype.trim\<close>: white space and line terminators are removed at
  both ends.\<close>

definition isSpace :: "char \<Rightarrow> bool" where
  "isSpace c =
     (c = CHR '' '' \<or> c = CHR 0x09 \<or> c = CHR 0x0A \<or> c = CHR 0x0B \<or> c = CHR 0x0C
      \<or> c = CHR 0x0D)"

definition trim :: "string \<Rightarrow> string" where
  "trim s = rev (dropWhile isSpace (rev (dropWhile isSpace s)))"

subsection \<open>Route overlap\<close>

text \<open>
  \<^verbatim>\<open>checkRouteOverlap(route1, route2)\<close>. An argument that is not an array is \<open>None\<close>.
  \<^verbatim>\<open>Array.prototype.some\<close> is \<open>list_ex\<close>.
\<close>

definition checkRouteOverlap :: "string list option \<Rightarrow> string list option \<Rightarrow> bool" where
  "checkRouteOverlap route1 route2 =
     (case route1 of
        None \<Rightarrow> False
      | Some r1 \<Rightarrow>
          (case route2 of
             None \<Rightarrow> False
           | Some r2 \<Rightarrow>
               if length r1 = 0 \<or> length r2 = 0 then False
               else
                 (let lowerRoute1 = map toLowerCase r1;
                      lowerRoute2 = map toLowerCase r2
                  in list_ex (\<lambda>point1.
                       list_ex (\<lambda>point2. str_includes point1 point2 \<or> str_includes point2 point1)
                         lowerRoute2)
                       lowerRoute1)))"

subsection \<open>Documents and the store\<close>

type_synonym uid = string

text \<open>A document id. The store generates a fresh one for every \<^verbatim>\<open>addDoc\<close>; the model
  draws them from the counter \<open>nextId\<close> of the state.\<close>

type_synonym docid = nat

text \<open>A collection, and the view a listener builds from it
  (\<^verbatim>\<open>snapshot.docs.map(doc => ({ id: doc.id, ...doc.data() }))\<close>): the documents in
  order, each with its id.\<close>

type_synonym 'a collection = "(docid \<times> 'a) list"

record vehicle =
  veh_type :: string
  veh_color :: string
  veh_plate :: string

text \<open>The registration form (\<^verbatim>\<open>regData\<close>).\<close>

record regData =
  reg_name :: string
  reg_email :: string
  reg_phone :: string
  reg_userType :: string
  reg_vehicle :: vehicle
  reg_licenseUploaded :: bool
  reg_idUploaded :: bool

text \<open>The stored profile. \<open>prof_vehicle\<close> is \<open>None\<close> for the empty object that is
  stored for a user who is not a driver.\<close>

record profile =
  prof_name :: string
  prof_email :: string
  prof_phone :: string
  prof_userType :: string
  prof_vehicle :: "vehicle option"
  prof_verificationStatus :: string

text \<open>\<^verbatim>\<open>currentUser\<close>. \<open>cu_vehicle\<close> is \<open>None\<close> when the field is missing.\<close>

record user =
  cu_id :: uid
  cu_name :: string
  cu_userType :: string
  cu_vehicle :: "vehicle option"

text \<open>A ride document. \<open>ride_route\<close> is \<open>None\<close> when the field is missing or is not an
  array.\<close>

record ride =
  ride_driverId :: uid
  ride_driverName :: string
  ride_from :: string
  ride_to :: string
  ride_startTime :: string
  ride_availableSeats :: int
  ride_pricePerSeat :: int
  ride_route :: "string list option"
  ride_car :: vehicle
  ride_status :: string

text \<open>A ride request document. The collection also holds the open requests of
  \<^verbatim>\<open>handlePostRequest\<close>, which have no \<^verbatim>\<open>rideId\<close> and no driver: these fields are
  options.\<close>

record request =
  req_rideId :: "docid option"
  req_riderId :: uid
  req_riderName :: string
  req_driverId :: "uid option"
  req_driverName :: "string option"
  req_from :: string
  req_to :: string
  req_rideStartTime :: string
  req_price :: int
  req_status :: string

text \<open>The form of \<^verbatim>\<open>PostRide\<close> (\<^verbatim>\<open>rideData\<close>); the two numbers are results of
  \<^verbatim>\<open>parseInt\<close>.\<close>

record rideData =
  rd_from :: string
  rd_to :: string
  rd_startTime :: string
  rd_availableSeats :: "int option"
  rd_pricePerSeat :: "int option"
  rd_route :: "string list"

text \<open>The form of \<^verbatim>\<open>SearchRides\<close> (\<^verbatim>\<open>searchQuery\<close>).\<close>

record searchQuery =
  sq_from :: string
  sq_to :: string
  sq_route :: "string list"

text \<open>
  The state: the component's local state (\<open>userId\<close> to \<open>currentView\<close>) and the
  store (\<open>db_profiles\<close> to \<open>nextId\<close>). \<open>wallet\<close> is \<^verbatim>\<open>wallet.balance\<close>.
\<close>

record app =
  userId :: uid
  currentUser :: user
  userType :: string
  rides :: "ride collection"
  rideRequests :: "request collection"
  wallet :: real
  currentView :: string
  db_profiles :: "uid \<rightharpoonup> profile"
  db_rides :: "ride collection"
  db_requests :: "request collection"
  db_wallets :: "uid \<rightharpoonup> real"
  nextId :: docid

text \<open>The argument of \<^verbatim>\<open>showMessage\<close>, one constructor for each message of the
  handlers below.\<close>

datatype notice =
    FillAllRequiredFields
  | ProvideVehicleAndLicense
  | UploadValidId
  | RegistrationSuccessful
  | FillRideDetails
  | OnlyDriversCanPost
  | RidePosted
  | OnlyRidersCanRequest
  | RideNotFound
  | NoSeatsAvailable
  | AlreadyRequested
  | RequestSent
  | RequestAccepted
  | FailedToAccept
  | RideCompleted
  | FailedToComplete
  | EnterValidAmount
  | InsufficientBalance
  | Withdrew real
  | FailedToWithdraw

text \<open>
  The store's operations. \<^verbatim>\<open>getDoc\<close> reads a document, \<^verbatim>\<open>updateDoc\<close> changes the
  fields of an existing document and fails (\<open>None\<close>: the promise is rejected, the
  handler's \<^verbatim>\<open>catch\<close> runs) when there is none, \<^verbatim>\<open>addDoc\<close> stores a document under a
  fresh id. Failures of the network are not modelled.
\<close>

definition getDoc :: "docid \<Rightarrow> 'a collection \<Rightarrow> 'a option" where
  "getDoc k c = map_of c k"

definition updateDoc :: "docid \<Rightarrow> ('a \<Rightarrow> 'a) \<Rightarrow> 'a collection \<Rightarrow> 'a collection option" where
  "updateDoc k f c =
     (case map_of c k of
        None \<Rightarrow> None
      | Some _ \<Rightarrow> Some (map (\<lambda>(i, d). if i = k then (i, f d) else (i, d)) c))"

definition addDoc :: "'a \<Rightarrow> docid \<Rightarrow> 'a collection \<Rightarrow> 'a collection" where
  "addDoc d fresh c = c @ [(fresh, d)]"

text \<open>
  The listeners of the second \<^verbatim>\<open>useEffect\<close>: each snapshot replaces the local view;
  the wallet's listener creates the document with balance 0 when it does not exist.
\<close>

definition onSnapshot :: "app \<Rightarrow> app" where
  "onSnapshot s =
     (let s1 = s\<lparr>rides := db_rides s, rideRequests := db_requests s\<rparr>
      in case db_wallets s1 (userId s1) of
           Some b \<Rightarrow> s1\<lparr>wallet := b\<rparr>
         | None \<Rightarrow> s1\<lparr>db_wallets := (db_wallets s1)(userId s1 \<mapsto> 0), wallet := 0\<rparr>)"

subsection \<open>Registration\<close>

definition handleRegistration :: "regData \<Rightarrow> app \<Rightarrow> notice \<times> app" where
  "handleRegistration regData s =
     (if reg_name regData = [] \<or> reg_email regData = [] \<or> reg_phone regData = []
         \<or> reg_userType regData = []
      then (FillAllRequiredFields, s)
      else if reg_userType regData = ''driver''
         \<and> (veh_type (reg_vehicle regData) = [] \<or> veh_color (reg_vehicle regData) = []
            \<or> veh_plate (reg_vehicle regData) = [] \<or> \<not> reg_licenseUploaded regData)
      then (ProvideVehicleAndLicense, s)
      else if reg_userType regData = ''rider'' \<and> \<not> reg_idUploaded regData
      then (UploadValidId, s)
      else
        (RegistrationSuccessful,
         s\<lparr>db_profiles := (db_profiles s)(userId s \<mapsto>
              \<lparr>prof_name = reg_name regData,
               prof_email = reg_email regData,
               prof_phone = reg_phone regData,
               prof_userType = reg_userType regData,
               prof_vehicle =
                 (if reg_userType regData = ''driver'' then Some (reg_vehicle regData) else None),
               prof_verificationStatus = ''pending''\<rparr>),
           currentUser :=
             \<lparr>cu_id = userId s, cu_name = reg_name regData,
              cu_userType = reg_userType regData, cu_vehicle = Some (reg_vehicle regData)\<rparr>,
           userType := reg_userType regData,
           currentView := ''home''\<rparr>))"

subsection \<open>Posting a ride\<close>

text \<open>A number is falsy when it is \<^verbatim>\<open>NaN\<close> or 0.\<close>

definition falsyNumber :: "int option \<Rightarrow> bool" where
  "falsyNumber n = (case n of None \<Rightarrow> True | Some k \<Rightarrow> k = 0)"

definition unknownCar :: vehicle where
  "unknownCar = \<lparr>veh_type = ''Unknown'', veh_color = ''Unknown'', veh_plate = ''N/A''\<rparr>"

text \<open>The ride that \<^verbatim>\<open>handlePostRide\<close> builds (\<^verbatim>\<open>newRide\<close>), from a form whose two
  numbers are \<open>availableSeats\<close> and \<open>pricePerSeat\<close>.\<close>

definition newRide :: "rideData \<Rightarrow> int \<Rightarrow> int \<Rightarrow> user \<Rightarrow> ride" where
  "newRide rideData availableSeats pricePerSeat u =
     (let filteredRoute = filter (\<lambda>point. trim point \<noteq> []) (rd_route rideData)
      in \<lparr>ride_driverId = cu_id u,
          ride_driverName = cu_name u,
          ride_from = rd_from rideData,
          ride_to = rd_to rideData,
          ride_startTime = rd_startTime rideData,
          ride_availableSeats = availableSeats,
          ride_pricePerSeat = pricePerSeat,
          ride_route = Some ([rd_from rideData] @ filteredRoute @ [rd_to rideData]),
          ride_car = (case cu_vehicle u of Some v \<Rightarrow> v | None \<Rightarrow> unknownCar),
          ride_status = ''active''\<rparr>)"

definition handlePostRide :: "rideData \<Rightarrow> app \<Rightarrow> notice \<times> app" where
  "handlePostRide rideData s =
     (if rd_from rideData = [] \<or> rd_to rideData = [] \<or> rd_startTime rideData = []
         \<or> falsyNumber (rd_availableSeats rideData) \<or> falsyNumber (rd_pricePerSeat rideData)
      then (FillRideDetails, s)
      else if cu_userType (currentUser s) \<noteq> ''driver''
      then (OnlyDriversCanPost, s)
      else
        (case (rd_availableSeats rideData, rd_pricePerSeat rideData) of
           (Some availableSeats, Some pricePerSeat) \<Rightarrow>
             (RidePosted,
              s\<lparr>db_rides :=
                  addDoc (newRide rideData availableSeats pricePerSeat (currentUser s)) (nextId s)
                    (db_rides s),
                nextId := Suc (nextId s),
                currentView := ''myRides''\<rparr>)
         | _ \<Rightarrow> (FillRideDetails, s)))"

text \<open>The last case of \<open>handlePostRide\<close> never arises: a \<^verbatim>\<open>NaN\<close> is falsy and is
  caught by the first test.\<close>

subsection \<open>Searching and requesting a ride\<close>

definition fullSearchRoute :: "searchQuery \<Rightarrow> string list" where
  "fullSearchRoute searchQuery =
     (let searchRoutePoints = filter (\<lambda>p. trim p \<noteq> []) (sq_route searchQuery)
      in filter (\<lambda>p. trim p \<noteq> [])
           ([sq_from searchQuery] @ searchRoutePoints @ [sq_to searchQuery]))"

text \<open>\<^verbatim>\<open>handleSearch\<close>; the result is what it passes to \<^verbatim>\<open>setFilteredRides\<close>.\<close>

definition rideMatches :: "searchQuery \<Rightarrow> ride \<Rightarrow> bool" where
  "rideMatches searchQuery ride =
     (let fromMatch =
            (if sq_from searchQuery \<noteq> []
             then str_includes (toLowerCase (ride_from ride)) (toLowerCase (sq_from searchQuery))
             else True);
          toMatch =
            (if sq_to searchQuery \<noteq> []
             then str_includes (toLowerCase (ride_to ride)) (toLowerCase (sq_to searchQuery))
             else True);
          seatsAvailable = ride_availableSeats ride > 0;
          routeMatch =
            (if length (fullSearchRoute searchQuery) > 0
             then checkRouteOverlap (ride_route ride) (Some (fullSearchRoute searchQuery))
             else True)
      in fromMatch \<and> toMatch \<and> seatsAvailable \<and> routeMatch)"

definition handleSearch :: "searchQuery \<Rightarrow> app \<Rightarrow> ride collection" where
  "handleSearch searchQuery s = filter (\<lambda>(i, ride). rideMatches searchQuery ride) (rides s)"

definition existingRequest :: "docid \<Rightarrow> uid \<Rightarrow> request \<Rightarrow> bool" where
  "existingRequest rideId riderId req =
     (req_rideId req = Some rideId \<and> req_riderId req = riderId
      \<and> (req_status req = ''pending'' \<or> req_status req = ''accepted''))"

text \<open>The request that \<^verbatim>\<open>requestRide\<close> builds (\<^verbatim>\<open>newRequest\<close>).\<close>

definition newRequest :: "docid \<Rightarrow> user \<Rightarrow> ride \<Rightarrow> request" where
  "newRequest rideId u ride =
     \<lparr>req_rideId = Some rideId,
      req_riderId = cu_id u,
      req_riderName = cu_name u,
      req_driverId = Some (ride_driverId ride),
      req_driverName = Some (ride_driverName ride),
      req_from = ride_from ride,
      req_to = ride_to ride,
      req_rideStartTime = ride_startTime ride,
      req_price = ride_pricePerSeat ride,
      req_status = ''pending''\<rparr>"

definition requestRide :: "docid \<Rightarrow> app \<Rightarrow> notice \<times> app" where
  "requestRide rideId s =
     (if cu_userType (currentUser s) \<noteq> ''rider'' then (OnlyRidersCanRequest, s)
      else
        (case find (\<lambda>(i, r). i = rideId) (rides s) of
           None \<Rightarrow> (RideNotFound, s)
         | Some (i, ride) \<Rightarrow>
             if ride_availableSeats ride \<le> 0 then (NoSeatsAvailable, s)
             else
               (case find (\<lambda>(j, req). existingRequest rideId (cu_id (currentUser s)) req)
                       (rideRequests s) of
                  Some _ \<Rightarrow> (AlreadyRequested, s)
                | None \<Rightarrow>
                    (RequestSent,
                     s\<lparr>db_requests :=
                         addDoc (newRequest rideId (currentUser s) ride) (nextId s) (db_requests s),
                       nextId := Suc (nextId s)\<rparr>))))"

subsection \<open>The driver's side: accepting a request, completing a ride\<close>

definition acceptRequest :: "docid \<Rightarrow> docid \<Rightarrow> app \<Rightarrow> notice \<times> app" where
  "acceptRequest requestId rideId s =
     (case updateDoc requestId (\<lambda>q. q\<lparr>req_status := ''accepted''\<rparr>) (db_requests s) of
        None \<Rightarrow> (FailedToAccept, s)
      | Some reqs \<Rightarrow>
          (let s1 = s\<lparr>db_requests := reqs\<rparr>
           in case getDoc rideId (db_rides s1) of
                None \<Rightarrow> (RequestAccepted, s1)
              | Some rideSnap \<Rightarrow>
                  (let currentSeats = ride_availableSeats rideSnap
                   in case updateDoc rideId (\<lambda>r. r\<lparr>ride_availableSeats := currentSeats - 1\<rparr>)
                             (db_rides s1) of
                        None \<Rightarrow> (FailedToAccept, s1)
                      | Some rs \<Rightarrow> (RequestAccepted, s1\<lparr>db_rides := rs\<rparr>))))"

text \<open>The query of \<^verbatim>\<open>completeRide\<close>: the requests of the rider for the ride that are
  accepted.\<close>

definition riderRequestQuery :: "docid \<Rightarrow> uid \<Rightarrow> request \<Rightarrow> bool" where
  "riderRequestQuery rideId riderId req =
     (req_rideId req = Some rideId \<and> req_riderId req = riderId \<and> req_status req = ''accepted'')"

definition completeRide :: "docid \<Rightarrow> uid \<Rightarrow> int \<Rightarrow> app \<Rightarrow> notice \<times> app" where
  "completeRide rideId riderId price s =
     (case updateDoc rideId (\<lambda>r. r\<lparr>ride_status := ''completed''\<rparr>) (db_rides s) of
        None \<Rightarrow> (FailedToComplete, s)
      | Some rs \<Rightarrow>
          (let s1 = s\<lparr>db_rides := rs\<rparr>;
               s2 = s1\<lparr>db_requests :=
                      map (\<lambda>(i, q). if riderRequestQuery rideId riderId q
                                    then (i, q\<lparr>req_status := ''completed''\<rparr>) else (i, q))
                        (db_requests s1)\<rparr>
           in case db_wallets s2 (cu_id (currentUser s2)) of
                None \<Rightarrow> (FailedToComplete, s2)
              | Some _ \<Rightarrow>
                  (let s3 = s2\<lparr>db_wallets :=
                             (db_wallets s2)(cu_id (currentUser s2) \<mapsto> wallet s2 + of_int price)\<rparr>
                   in case db_wallets s3 riderId of
                        None \<Rightarrow> (RideCompleted, s3)
                      | Some riderCurrentBalance \<Rightarrow>
                          (RideCompleted,
                           s3\<lparr>db_wallets :=
                                (db_wallets s3)(riderId \<mapsto> riderCurrentBalance - of_int price)\<rparr>))))"

subsection \<open>The wallet\<close>

text \<open>\<^verbatim>\<open>handleWithdrawFunds\<close>; the argument is \<^verbatim>\<open>parseFloat(amount)\<close>.\<close>

definition handleWithdrawFunds :: "real option \<Rightarrow> app \<Rightarrow> notice \<times> app" where
  "handleWithdrawFunds amount s =
     (case amount of
        None \<Rightarrow> (EnterValidAmount, s)
      | Some withdrawAmount \<Rightarrow>
          if withdrawAmount \<le> 0 then (EnterValidAmount, s)
          else if withdrawAmount > wallet s then (InsufficientBalance, s)
          else
            (case db_wallets s (userId s) of
               None \<Rightarrow> (FailedToWithdraw, s)
             | Some _ \<Rightarrow>
                 (Withdrew withdrawAmount,
                  s\<lparr>db_wallets := (db_wallets s)(userId s \<mapsto> wallet s - withdrawAmount)\<rparr>)))"

subsection \<open>Example states\<close>

text \<open>
  Concrete states on which the theorems below are evaluated: a driver with a posted
  ride and two pending requests against it, and a rider who sees a ride with two free
  seats. The ride and the search are the scenario of the specification.
\<close>

definition sedan :: vehicle where
  "sedan = \<lparr>veh_type = ''Sedan'', veh_color = ''Red'', veh_plate = ''ABCD123''\<rparr>"

definition dana :: user where
  "dana = \<lparr>cu_id = ''driver1'', cu_name = ''Dana'', cu_userType = ''driver'',
            cu_vehicle = Some sedan\<rparr>"

definition riley :: user where
  "riley = \<lparr>cu_id = ''rider1'', cu_name = ''Riley'', cu_userType = ''rider'',
             cu_vehicle = None\<rparr>"

definition torontoRide :: "int \<Rightarrow> ride" where
  "torontoRide seats =
     \<lparr>ride_driverId = ''driver1'', ride_driverName = ''Dana'',
      ride_from = ''Toronto Downtown'', ride_to = ''Mississauga'',
      ride_startTime = ''2025-06-01T09:00'', ride_availableSeats = seats,
      ride_pricePerSeat = 15,
      ride_route = Some [''Toronto Downtown'', ''Mississauga''],
      ride_car = sedan, ride_status = ''active''\<rparr>"

definition routelessRide :: ride where
  "routelessRide = (torontoRide 2)\<lparr>ride_route := None\<rparr>"

definition pendingRequest :: "uid \<Rightarrow> string \<Rightarrow> request" where
  "pendingRequest riderId riderName =
     \<lparr>req_rideId = Some 0, req_riderId = riderId, req_riderName = riderName,
      req_driverId = Some ''driver1'', req_driverName = Some ''Dana'',
      req_from = ''Toronto Downtown'', req_to = ''Mississauga'',
      req_rideStartTime = ''2025-06-01T09:00'', req_price = 15,
      req_status = ''pending''\<rparr>"

text \<open>The driver's state: one seat is left, two riders have asked for it; the second
  rider has no wallet document yet.\<close>

definition driverApp :: app where
  "driverApp =
     \<lparr>userId = ''driver1'', currentUser = dana, userType = ''driver'',
      rides = [(0, torontoRide 1)],
      rideRequests =
        [(1, pendingRequest ''rider1'' ''Riley''), (2, pendingRequest ''rider2'' ''Robin'')],
      wallet = 40, currentView = ''myRides'',
      db_profiles = Map.empty,
      db_rides = [(0, torontoRide 1)],
      db_requests =
        [(1, pendingRequest ''rider1'' ''Riley''), (2, pendingRequest ''rider2'' ''Robin'')],
      db_wallets = [''driver1'' \<mapsto> 40, ''rider1'' \<mapsto> 20],
      nextId = 3\<rparr>"

text \<open>A rider's state, with the given balance.\<close>

definition riderApp :: "real \<Rightarrow> app" where
  "riderApp balance =
     \<lparr>userId = ''rider1'', currentUser = riley, userType = ''rider'',
      rides = [(0, torontoRide 2)], rideRequests = [],
      wallet = balance, currentView = ''search'',
      db_profiles = Map.empty,
      db_rides = [(0, torontoRide 2)], db_requests = [],
      db_wallets = [''rider1'' \<mapsto> balance],
      nextId = 1\<rparr>"

definition rideDraft :: "int option \<Rightarrow> rideData" where
  "rideDraft seats =
     \<lparr>rd_from = ''Toronto Downtown'', rd_to = ''Mississauga'',
      rd_startTime = ''2025-06-01T09:00'', rd_availableSeats = seats,
      rd_pricePerSeat = Some 15, rd_route = ['' '', ''Square One'', '''']\<rparr>"

definition downtownSearch :: searchQuery where
  "downtownSearch = \<lparr>sq_from = ''Downtown'', sq_to = ''Mississauga'', sq_route = ['''']\<rparr>"

definition detourRide :: ride where
  "detourRide = (torontoRide 2)\<lparr>ride_route := Some [''Xyz'', ''Qrs'']\<rparr>"

definition shoutedSearch :: searchQuery where
  "shoutedSearch = \<lparr>sq_from = ''DOWNTOWN'', sq_to = ''mississauga'', sq_route = ['''']\<rparr>"

definition oakvilleSearch :: searchQuery where
  "oakvilleSearch = \<lparr>sq_from = '''', sq_to = '''', sq_route = [''Oakville'']\<rparr>"

definition danaForm :: regData where
  "danaForm =
     \<lparr>reg_name = ''Dana'', reg_email = ''dana@example.org'', reg_phone = ''555-0100'',
      reg_userType = ''driver'', reg_vehicle = sedan, reg_licenseUploaded = True,
      reg_idUploaded = False\<rparr>"

section \<open>Properties\<close>

subsection \<open>Strings\<close>

lemma startsWith_append: "startsWith s t \<longleftrightarrow> (\<exists>q. s = t @ q)"
proof
  assume "startsWith s t"
  then have "s = t @ drop (length t) s"
    by (metis append_take_drop_id startsWith_def)
  then show "\<exists>q. s = t @ q" ..
next
  assume "\<exists>q. s = t @ q"
  then show "startsWith s t"
    by (auto simp: startsWith_def)
qed

text \<open>\<open>str_includes\<close> is the substring test.\<close>

lemma includes_append: "str_includes s t \<longleftrightarrow> (\<exists>p q. s = p @ t @ q)"
proof (induction s)
  case Nil
  show ?case by auto
next
  case (Cons c s)
  show ?case
  proof
    assume "str_includes (c # s) t"
    then consider "startsWith (c # s) t" | "str_includes s t" by auto
    then show "\<exists>p q. c # s = p @ t @ q"
    proof cases
      case 1
      then obtain q where "c # s = t @ q" by (auto simp: startsWith_append)
      then have "c # s = [] @ t @ q" by simp
      then show ?thesis by blast
    next
      case 2
      then obtain p q where "s = p @ t @ q" using Cons.IH by blast
      then have "c # s = (c # p) @ t @ q" by simp
      then show ?thesis by blast
    qed
  next
    assume "\<exists>p q. c # s = p @ t @ q"
    then obtain p q where pq: "c # s = p @ t @ q" by blast
    show "str_includes (c # s) t"
    proof (cases p)
      case Nil
      with pq have "startsWith (c # s) t" by (auto simp: startsWith_append)
      then show ?thesis by simp
    next
      case (Cons a p')
      with pq have "s = p' @ t @ q" by simp
      then have "str_includes s t" using Cons.IH by blast
      then show ?thesis by simp
    qed
  qed
qed

text \<open>A string trims to the empty string exactly when it is blank.\<close>

lemma trim_blank: "trim s = [] \<longleftrightarrow> list_all isSpace s"
proof -
  have "trim s = [] \<longleftrightarrow> (\<forall>c \<in> set (dropWhile isSpace s). isSpace c)"
    unfolding trim_def rev_is_Nil_conv dropWhile_eq_Nil_conv set_rev ..
  also have "\<dots> \<longleftrightarrow> dropWhile isSpace s = []"
  proof
    assume a: "\<forall>c \<in> set (dropWhile isSpace s). isSpace c"
    show "dropWhile isSpace s = []"
    proof (rule ccontr)
      assume ne: "dropWhile isSpace s \<noteq> []"
      then have "\<not> isSpace (hd (dropWhile isSpace s))" by (rule hd_dropWhile)
      moreover from ne have "hd (dropWhile isSpace s) \<in> set (dropWhile isSpace s)" by simp
      ultimately show False using a by blast
    qed
  next
    assume "dropWhile isSpace s = []"
    then show "\<forall>c \<in> set (dropWhile isSpace s). isSpace c"
      by (simp only: list.set ball_empty)
  qed
  also have "\<dots> \<longleftrightarrow> list_all isSpace s"
    by (simp only: dropWhile_eq_Nil_conv list_all_iff)
  finally show ?thesis .
qed

subsection \<open>The store\<close>

lemma updateDoc_Some:
  "map_of c k = Some d \<Longrightarrow>
     updateDoc k f c = Some (map (\<lambda>(i, x). if i = k then (i, f x) else (i, x)) c)"
  by (simp add: updateDoc_def)

lemma map_of_update_same:
  "map_of c k = Some d \<Longrightarrow>
     map_of (map (\<lambda>(i, x). if i = k then (i, f x) else (i, x)) c) k = Some (f d)"
  by (induction c) (auto split: if_splits)

lemma map_of_update_other:
  "map_of (map (\<lambda>(i, x). if P x then (i, g x) else (i, x)) c) k
     = map_option (\<lambda>x. if P x then g x else x) (map_of c k)"
  by (induction c) (auto split: if_splits)

lemma list_all_updated:
  assumes "\<And>x. \<not> P (g x)"
  shows "list_all (\<lambda>(i, x). \<not> P x) (map (\<lambda>(i, x). if P x then (i, g x) else (i, x)) c)"
proof (induction c)
  case Nil
  show ?case by simp
next
  case (Cons a c)
  obtain i x where a: "a = (i, x)" by (cases a)
  show ?case
  proof (cases "P x")
    case True
    with Cons a assms show ?thesis by simp
  next
    case False
    with Cons a show ?thesis by simp
  qed
qed

subsection \<open>Route overlap\<close>

lemma checkRouteOverlap_iff:
  "checkRouteOverlap (Some r1) (Some r2) \<longleftrightarrow>
     (\<exists>p1 \<in> set r1. \<exists>p2 \<in> set r2.
        str_includes (toLowerCase p1) (toLowerCase p2)
        \<or> str_includes (toLowerCase p2) (toLowerCase p1))"
  by (auto simp: checkRouteOverlap_def list_ex_iff)

text \<open>
  Claim C7. For all waypoint lists \<open>A\<close> and \<open>B\<close> (and for arguments that are not
  arrays), \<^verbatim>\<open>checkRouteOverlap(A, B)\<close> and \<^verbatim>\<open>checkRouteOverlap(B, A)\<close> are the same
  truth value.
\<close>

theorem checkRouteOverlap_symmetric:
  "checkRouteOverlap a b = checkRouteOverlap b a"
proof (cases a; cases b)
  fix r1 r2
  assume ab: "a = Some r1" "b = Some r2"
  have "list_ex (\<lambda>p1. list_ex (\<lambda>p2. str_includes p1 p2 \<or> str_includes p2 p1) (map toLowerCase r2))
          (map toLowerCase r1)
      = list_ex (\<lambda>p2. list_ex (\<lambda>p1. str_includes p2 p1 \<or> str_includes p1 p2) (map toLowerCase r1))
          (map toLowerCase r2)"
    unfolding list_ex_iff by blast
  with ab show ?thesis
    by (auto simp: checkRouteOverlap_def)
qed (simp_all add: checkRouteOverlap_def)

text \<open>The specification's example, in both orders: the overlap ignores case.\<close>

theorem checkRouteOverlap_symmetric_witness:
  "checkRouteOverlap (Some [''Downtown'']) (Some [''downtown plaza''])
   \<and> checkRouteOverlap (Some [''downtown plaza'']) (Some [''Downtown''])"
proof -
  have "checkRouteOverlap (Some [''Downtown'']) (Some [''downtown plaza''])"
    by (simp add: checkRouteOverlap_def toLowerCase_def lowerChar_def startsWith_def)
  then show ?thesis
    using checkRouteOverlap_symmetric [of "Some [''Downtown'']" "Some [''downtown plaza'']"]
    by simp
qed

text \<open>The search route that \<^verbatim>\<open>handleSearch\<close> assembles: the query's \<^verbatim>\<open>from\<close>, its
  stops and its \<^verbatim>\<open>to\<close>, the blank ones dropped.\<close>

lemma fullSearchRoute_filter:
  "fullSearchRoute q =
     filter (\<lambda>p. \<not> list_all isSpace p) ([sq_from q] @ sq_route q @ [sq_to q])"
  by (simp add: fullSearchRoute_def trim_blank)

text \<open>
  Claim C10. An empty waypoint list, and an argument that is not an array, overlaps
  with nothing, on either side. So a ride whose stored route is empty or missing is
  in no result of a search whose search route has a point (a non-blank \<^verbatim>\<open>from\<close>, stop
  or \<^verbatim>\<open>to\<close>), whatever its \<^verbatim>\<open>from\<close> and \<^verbatim>\<open>to\<close> fields are.
\<close>

theorem checkRouteOverlap_empty:
  "\<not> checkRouteOverlap a (Some []) \<and> \<not> checkRouteOverlap (Some []) a
   \<and> \<not> checkRouteOverlap a None \<and> \<not> checkRouteOverlap None a
   \<and> ((ride_route ride = None \<or> ride_route ride = Some []) \<and> fullSearchRoute q \<noteq> []
        \<longrightarrow> (i, ride) \<notin> set (handleSearch q s))"
proof -
  have e: "\<not> checkRouteOverlap x (Some [])" "\<not> checkRouteOverlap (Some []) x"
    "\<not> checkRouteOverlap x None" "\<not> checkRouteOverlap None x" for x
    by (simp_all add: checkRouteOverlap_def split: option.splits)
  have "\<not> rideMatches q ride"
    if "ride_route ride = None \<or> ride_route ride = Some []" "fullSearchRoute q \<noteq> []"
    using that e by (auto simp: rideMatches_def Let_def)
  then show ?thesis
    using e by (auto simp: handleSearch_def)
qed

text \<open>A ride without a route whose \<^verbatim>\<open>from\<close> matches the search is left out.\<close>

theorem checkRouteOverlap_empty_witness:
  "ride_route routelessRide = None
   \<and> fullSearchRoute downtownSearch = [''Downtown'', ''Mississauga'']
   \<and> str_includes (toLowerCase (ride_from routelessRide)) (toLowerCase (sq_from downtownSearch))
   \<and> (0, routelessRide)
       \<notin> set (handleSearch downtownSearch ((riderApp 20)\<lparr>rides := [(0, routelessRide)]\<rparr>))"
proof -
  have route: "fullSearchRoute downtownSearch = [''Downtown'', ''Mississauga'']"
    by (simp add: fullSearchRoute_def downtownSearch_def trim_def isSpace_def)
  have r: "ride_route routelessRide = None"
    by (simp add: routelessRide_def)
  have f: "str_includes (toLowerCase (ride_from routelessRide)) (toLowerCase (sq_from downtownSearch))"
    by (simp add: routelessRide_def torontoRide_def downtownSearch_def toLowerCase_def
        lowerChar_def startsWith_def)
  from checkRouteOverlap_empty [of undefined routelessRide downtownSearch 0
      "(riderApp 20)\<lparr>rides := [(0, routelessRide)]\<rparr>"] r route
  have "(0, routelessRide)
       \<notin> set (handleSearch downtownSearch ((riderApp 20)\<lparr>rides := [(0, routelessRide)]\<rparr>))"
    by simp
  with r route f show ?thesis by simp
qed

subsection \<open>Searching\<close>

text \<open>The search route has a point exactly when the query's \<^verbatim>\<open>from\<close>, a stop or its
  \<^verbatim>\<open>to\<close> is not blank.\<close>

lemma fullSearchRoute_nonempty:
  "fullSearchRoute q \<noteq> [] \<longleftrightarrow>
     list_ex (\<lambda>p. \<not> list_all isSpace p) ([sq_from q] @ sq_route q @ [sq_to q])"
  unfolding fullSearchRoute_filter filter_empty_conv list_ex_iff by blast

text \<open>The overlap in the words of the specification: the ride has a route, and a
  point of it and a point of the other route, both in lower case, are such that one
  is a substring of the other.\<close>

lemma checkRouteOverlap_spec:
  "checkRouteOverlap r (Some ps) \<longleftrightarrow>
     (\<exists>rt. r = Some rt
        \<and> (\<exists>p1 \<in> set rt. \<exists>p2 \<in> set ps.
              (\<exists>a b. toLowerCase p1 = a @ toLowerCase p2 @ b)
              \<or> (\<exists>a b. toLowerCase p2 = a @ toLowerCase p1 @ b)))"
proof (cases r)
  case None
  then show ?thesis by (simp add: checkRouteOverlap_def)
next
  case (Some rt)
  then show ?thesis by (simp add: checkRouteOverlap_iff includes_append)
qed

text \<open>
  A query without a non-blank stop still has a search route when its \<^verbatim>\<open>from\<close> or
  \<^verbatim>\<open>to\<close> is not blank, and the overlap is then checked. For a ride whose route holds
  its \<^verbatim>\<open>from\<close> and its \<^verbatim>\<open>to\<close>, as every route built by \<^verbatim>\<open>handlePostRide\<close> does, the
  check adds nothing: the match of \<^verbatim>\<open>from\<close> or \<^verbatim>\<open>to\<close> is already an overlap.
\<close>

lemma handleSearch_no_stops:
  assumes stops: "list_all (list_all isSpace) (sq_route q)"
    and route: "ride_route ride = Some rt" "ride_from ride \<in> set rt" "ride_to ride \<in> set rt"
  shows "(i, ride) \<in> set (handleSearch q s) \<longleftrightarrow>
     (i, ride) \<in> set (rides s)
     \<and> (sq_from q \<noteq> [] \<longrightarrow>
          str_includes (toLowerCase (ride_from ride)) (toLowerCase (sq_from q)))
     \<and> (sq_to q \<noteq> [] \<longrightarrow>
          str_includes (toLowerCase (ride_to ride)) (toLowerCase (sq_to q)))
     \<and> 0 < ride_availableSeats ride"
proof -
  have none: "filter (\<lambda>p. \<not> list_all isSpace p) (sq_route q) = []"
    using stops by (simp add: list_all_iff filter_empty_conv)
  have pts: "set (fullSearchRoute q) \<subseteq> {sq_from q, sq_to q}"
    "\<And>p. p \<in> set (fullSearchRoute q) \<Longrightarrow> p \<noteq> []"
    using none by (auto simp: fullSearchRoute_filter split: if_splits)
  have "checkRouteOverlap (ride_route ride) (Some (fullSearchRoute q))"
    if m: "sq_from q \<noteq> [] \<longrightarrow> str_includes (toLowerCase (ride_from ride)) (toLowerCase (sq_from q))"
      "sq_to q \<noteq> [] \<longrightarrow> str_includes (toLowerCase (ride_to ride)) (toLowerCase (sq_to q))"
      and ne: "fullSearchRoute q \<noteq> []"
  proof -
    from ne obtain p where p: "p \<in> set (fullSearchRoute q)" by (cases "fullSearchRoute q") auto
    then have "p \<noteq> []" and "p = sq_from q \<or> p = sq_to q" using pts by auto
    then have "\<exists>p1 \<in> set rt. str_includes (toLowerCase p1) (toLowerCase p)"
      using m route by auto
    with p show ?thesis
      unfolding route checkRouteOverlap_iff by blast
  qed
  then show ?thesis
    by (auto simp: handleSearch_def rideMatches_def Let_def)
qed

text \<open>
  Claim C6, as amended. \<^verbatim>\<open>handleSearch\<close> returns a ride of the catalogue exactly when:
  if the query's \<^verbatim>\<open>from\<close> is not empty, the ride's \<^verbatim>\<open>from\<close> contains it, both in lower
  case; likewise for \<^verbatim>\<open>to\<close>; the ride has a free seat; and, if the query's \<^verbatim>\<open>from\<close>, a
  stop or its \<^verbatim>\<open>to\<close> is not blank, the ride has a route one of whose points and one of
  these non-blank entries, both in lower case, are such that one is a substring of the
  other. The overlap is thus skipped only when \<^verbatim>\<open>from\<close>, \<^verbatim>\<open>to\<close> and every stop are
  blank. When only the stops are blank it is still checked, and for a ride whose route
  holds its \<^verbatim>\<open>from\<close> and its \<^verbatim>\<open>to\<close> the other conditions alone decide.
\<close>

theorem handleSearch_spec:
  "((i, ride) \<in> set (handleSearch q s) \<longleftrightarrow>
     (i, ride) \<in> set (rides s)
     \<and> (sq_from q \<noteq> [] \<longrightarrow>
          (\<exists>a b. toLowerCase (ride_from ride) = a @ toLowerCase (sq_from q) @ b))
     \<and> (sq_to q \<noteq> [] \<longrightarrow>
          (\<exists>a b. toLowerCase (ride_to ride) = a @ toLowerCase (sq_to q) @ b))
     \<and> 0 < ride_availableSeats ride
     \<and> (list_ex (\<lambda>p. \<not> list_all isSpace p) ([sq_from q] @ sq_route q @ [sq_to q]) \<longrightarrow>
          (\<exists>rt. ride_route ride = Some rt
             \<and> (\<exists>p1 \<in> set rt. \<exists>p2 \<in> set ([sq_from q] @ sq_route q @ [sq_to q]).
                   \<not> list_all isSpace p2
                   \<and> ((\<exists>a b. toLowerCase p1 = a @ toLowerCase p2 @ b)
                        \<or> (\<exists>a b. toLowerCase p2 = a @ toLowerCase p1 @ b))))))
   \<and> (list_all (list_all isSpace) (sq_route q) \<and> ride_route ride = Some rt
        \<and> ride_from ride \<in> set rt \<and> ride_to ride \<in> set rt
      \<longrightarrow> ((i, ride) \<in> set (handleSearch q s) \<longleftrightarrow>
            (i, ride) \<in> set (rides s)
            \<and> (sq_from q \<noteq> [] \<longrightarrow>
                 (\<exists>a b. toLowerCase (ride_from ride) = a @ toLowerCase (sq_from q) @ b))
            \<and> (sq_to q \<noteq> [] \<longrightarrow>
                 (\<exists>a b. toLowerCase (ride_to ride) = a @ toLowerCase (sq_to q) @ b))
            \<and> 0 < ride_availableSeats ride))"
proof (intro conjI impI)
  have m: "(i, ride) \<in> set (handleSearch q s) \<longleftrightarrow> (i, ride) \<in> set (rides s) \<and> rideMatches q ride"
    by (auto simp: handleSearch_def)
  have o: "checkRouteOverlap (ride_route ride) (Some (fullSearchRoute q)) \<longleftrightarrow>
      (\<exists>rt. ride_route ride = Some rt
             \<and> (\<exists>p1 \<in> set rt. \<exists>p2 \<in> set ([sq_from q] @ sq_route q @ [sq_to q]).
                   \<not> list_all isSpace p2
                   \<and> ((\<exists>a b. toLowerCase p1 = a @ toLowerCase p2 @ b)
                        \<or> (\<exists>a b. toLowerCase p2 = a @ toLowerCase p1 @ b))))"
    unfolding checkRouteOverlap_spec fullSearchRoute_filter set_filter by blast
  show "(i, ride) \<in> set (handleSearch q s) \<longleftrightarrow>
     (i, ride) \<in> set (rides s)
     \<and> (sq_from q \<noteq> [] \<longrightarrow>
          (\<exists>a b. toLowerCase (ride_from ride) = a @ toLowerCase (sq_from q) @ b))
     \<and> (sq_to q \<noteq> [] \<longrightarrow>
          (\<exists>a b. toLowerCase (ride_to ride) = a @ toLowerCase (sq_to q) @ b))
     \<and> 0 < ride_availableSeats ride
     \<and> (list_ex (\<lambda>p. \<not> list_all isSpace p) ([sq_from q] @ sq_route q @ [sq_to q]) \<longrightarrow>
          (\<exists>rt. ride_route ride = Some rt
             \<and> (\<exists>p1 \<in> set rt. \<exists>p2 \<in> set ([sq_from q] @ sq_route q @ [sq_to q]).
                   \<not> list_all isSpace p2
                   \<and> ((\<exists>a b. toLowerCase p1 = a @ toLowerCase p2 @ b)
                        \<or> (\<exists>a b. toLowerCase p2 = a @ toLowerCase p1 @ b)))))"
    unfolding m o [symmetric] fullSearchRoute_nonempty [symmetric]
    by (auto simp: rideMatches_def Let_def includes_append)
next
  assume "list_all (list_all isSpace) (sq_route q) \<and> ride_route ride = Some rt
        \<and> ride_from ride \<in> set rt \<and> ride_to ride \<in> set rt"
  then show "(i, ride) \<in> set (handleSearch q s) \<longleftrightarrow>
            (i, ride) \<in> set (rides s)
            \<and> (sq_from q \<noteq> [] \<longrightarrow>
                 (\<exists>a b. toLowerCase (ride_from ride) = a @ toLowerCase (sq_from q) @ b))
            \<and> (sq_to q \<noteq> [] \<longrightarrow>
                 (\<exists>a b. toLowerCase (ride_to ride) = a @ toLowerCase (sq_to q) @ b))
            \<and> 0 < ride_availableSeats ride"
    using handleSearch_no_stops [of q ride rt i s] by (simp add: includes_append)
qed

text \<open>
  The ride from Toronto Downtown to Mississauga with two free seats is returned for
  the search from DOWNTOWN to mississauga, whatever the case of the letters; the same
  ride without a free seat is not; the search for the stop Oakville alone does not
  return it, since no point of its route overlaps; and the specification's search
  from Downtown to Mississauga, which has no stop, returns it.
\<close>

theorem handleSearch_spec_witness:
  "(0, torontoRide 2) \<in> set (handleSearch shoutedSearch (riderApp 20))
   \<and> (0, torontoRide 0)
       \<notin> set (handleSearch shoutedSearch ((riderApp 20)\<lparr>rides := [(0, torontoRide 0)]\<rparr>))
   \<and> (0, torontoRide 2) \<in> set (rides (riderApp 20))
   \<and> (0, torontoRide 2) \<notin> set (handleSearch oakvilleSearch (riderApp 20))
   \<and> (0, torontoRide 2) \<in> set (handleSearch downtownSearch (riderApp 20))"
proof -
  have v: "(0, torontoRide 2) \<in> set (rides (riderApp 20))"
    by (simp add: riderApp_def)
  have r: "ride_from (torontoRide k) = ''Toronto Downtown''"
    "ride_to (torontoRide k) = ''Mississauga''"
    "ride_availableSeats (torontoRide k) = k"
    "ride_route (torontoRide k) = Some [''Toronto Downtown'', ''Mississauga'']" for k
    by (simp_all add: torontoRide_def)
  have low: "toLowerCase ''Toronto Downtown'' = ''toronto downtown''"
    "toLowerCase ''Mississauga'' = ''mississauga''"
    "toLowerCase ''DOWNTOWN'' = ''downtown''"
    "toLowerCase ''mississauga'' = ''mississauga''"
    "toLowerCase ''Downtown'' = ''downtown''"
    "toLowerCase ''Oakville'' = ''oakville''"
    by (simp_all add: toLowerCase_def lowerChar_def)
  have inc: "str_includes ''toronto downtown'' ''downtown''"
    "str_includes ''mississauga'' ''mississauga''"
    "\<not> str_includes ''toronto downtown'' ''oakville''"
    "\<not> str_includes ''oakville'' ''toronto downtown''"
    "\<not> str_includes ''mississauga'' ''oakville''"
    "\<not> str_includes ''oakville'' ''mississauga''"
    by (simp_all add: startsWith_def)
  have 1: "(0, torontoRide 2) \<in> set (handleSearch shoutedSearch (riderApp 20))"
    using handleSearch_spec [THEN conjunct1, of 0 "torontoRide 2" shoutedSearch "riderApp 20"] v inc
    unfolding includes_append [symmetric] r
    by (simp add: shoutedSearch_def low isSpace_def)
  have 2: "(0, torontoRide 0)
       \<notin> set (handleSearch shoutedSearch ((riderApp 20)\<lparr>rides := [(0, torontoRide 0)]\<rparr>))"
    using handleSearch_spec [THEN conjunct1, of 0 "torontoRide 0" shoutedSearch
        "(riderApp 20)\<lparr>rides := [(0, torontoRide 0)]\<rparr>"]
    unfolding r by simp
  have 3: "(0, torontoRide 2) \<notin> set (handleSearch oakvilleSearch (riderApp 20))"
    using handleSearch_spec [THEN conjunct1, of 0 "torontoRide 2" oakvilleSearch "riderApp 20"] inc
    unfolding includes_append [symmetric] r
    by (simp add: oakvilleSearch_def low isSpace_def)
  have 4: "(0, torontoRide 2) \<in> set (handleSearch downtownSearch (riderApp 20))"
    using handleSearch_spec [THEN conjunct2, of downtownSearch "torontoRide 2"
        "[''Toronto Downtown'', ''Mississauga'']" 0 "riderApp 20"] v inc
    unfolding includes_append [symmetric] r
    by (simp add: downtownSearch_def low)
  from 1 2 v 3 4 show ?thesis by simp
qed

text \<open>
  The claim as it was stated fails: the search from Downtown to Mississauga supplies
  no stop, the ride's \<^verbatim>\<open>from\<close> and \<^verbatim>\<open>to\<close> match it and the ride has free seats, and
  yet the ride is not returned, because the overlap is checked against the query's
  \<^verbatim>\<open>from\<close> and \<^verbatim>\<open>to\<close> and the ride's stored route holds neither.
\<close>

theorem handleSearch_counterexample:
  "list_all (list_all isSpace) (sq_route downtownSearch)
   \<and> (0, detourRide) \<in> set (rides ((riderApp 20)\<lparr>rides := [(0, detourRide)]\<rparr>))
   \<and> str_includes (toLowerCase (ride_from detourRide)) (toLowerCase (sq_from downtownSearch))
   \<and> str_includes (toLowerCase (ride_to detourRide)) (toLowerCase (sq_to downtownSearch))
   \<and> 0 < ride_availableSeats detourRide
   \<and> handleSearch downtownSearch ((riderApp 20)\<lparr>rides := [(0, detourRide)]\<rparr>) = []"
  by (simp add: handleSearch_def rideMatches_def fullSearchRoute_def trim_def isSpace_def
      checkRouteOverlap_def toLowerCase_def lowerChar_def startsWith_def
      downtownSearch_def detourRide_def torontoRide_def riderApp_def)

subsection \<open>Registration\<close>

text \<open>
  Claim C9. \<^verbatim>\<open>handleRegistration\<close> succeeds when name, email, phone and user type are
  not empty, a driver has given the vehicle's type, colour and plate and has uploaded
  the licence, and a rider has uploaded the id; it then stores the profile with
  verification status \<open>pending\<close> and shows the home view. When a requirement is not
  met it shows the matching notice and writes nothing: the state is the one it started
  from.
\<close>

theorem handleRegistration_spec:
  "(reg_name d \<noteq> [] \<and> reg_email d \<noteq> [] \<and> reg_phone d \<noteq> [] \<and> reg_userType d \<noteq> []
      \<and> (reg_userType d = ''driver'' \<longrightarrow>
            veh_type (reg_vehicle d) \<noteq> [] \<and> veh_color (reg_vehicle d) \<noteq> []
            \<and> veh_plate (reg_vehicle d) \<noteq> [] \<and> reg_licenseUploaded d)
      \<and> (reg_userType d = ''rider'' \<longrightarrow> reg_idUploaded d)
    \<longrightarrow> fst (handleRegistration d s) = RegistrationSuccessful
        \<and> (\<exists>p. db_profiles (snd (handleRegistration d s)) (userId s) = Some p
               \<and> prof_verificationStatus p = ''pending''
               \<and> prof_name p = reg_name d \<and> prof_email p = reg_email d
               \<and> prof_phone p = reg_phone d \<and> prof_userType p = reg_userType d)
        \<and> currentView (snd (handleRegistration d s)) = ''home'')
   \<and> (reg_name d = [] \<or> reg_email d = [] \<or> reg_phone d = [] \<or> reg_userType d = []
      \<longrightarrow> handleRegistration d s = (FillAllRequiredFields, s))
   \<and> (reg_name d \<noteq> [] \<and> reg_email d \<noteq> [] \<and> reg_phone d \<noteq> [] \<and> reg_userType d = ''driver''
        \<and> (veh_type (reg_vehicle d) = [] \<or> veh_color (reg_vehicle d) = []
            \<or> veh_plate (reg_vehicle d) = [] \<or> \<not> reg_licenseUploaded d)
      \<longrightarrow> handleRegistration d s = (ProvideVehicleAndLicense, s))
   \<and> (reg_name d \<noteq> [] \<and> reg_email d \<noteq> [] \<and> reg_phone d \<noteq> [] \<and> reg_userType d = ''rider''
        \<and> \<not> reg_idUploaded d
      \<longrightarrow> handleRegistration d s = (UploadValidId, s))
   \<and> (fst (handleRegistration d s) \<noteq> RegistrationSuccessful
      \<longrightarrow> snd (handleRegistration d s) = s)"
  by (auto simp: handleRegistration_def)

theorem handleRegistration_spec_witness:
  "fst (handleRegistration danaForm driverApp) = RegistrationSuccessful
   \<and> (\<exists>p. db_profiles (snd (handleRegistration danaForm driverApp)) ''driver1'' = Some p
          \<and> prof_verificationStatus p = ''pending'')
   \<and> handleRegistration (danaForm\<lparr>reg_licenseUploaded := False\<rparr>) driverApp
       = (ProvideVehicleAndLicense, driverApp)"
proof -
  have me: "userId driverApp = ''driver1''" by (simp add: driverApp_def)
  from handleRegistration_spec [of danaForm driverApp]
  have 1: "fst (handleRegistration danaForm driverApp) = RegistrationSuccessful
   \<and> (\<exists>p. db_profiles (snd (handleRegistration danaForm driverApp)) ''driver1'' = Some p
          \<and> prof_verificationStatus p = ''pending'')"
    unfolding me by (simp add: danaForm_def sedan_def) blast
  from handleRegistration_spec [of "danaForm\<lparr>reg_licenseUploaded := False\<rparr>" driverApp]
  have 2: "handleRegistration (danaForm\<lparr>reg_licenseUploaded := False\<rparr>) driverApp
       = (ProvideVehicleAndLicense, driverApp)"
    by (simp add: danaForm_def sedan_def)
  from 1 2 show ?thesis by simp
qed

subsection \<open>Posting a ride\<close>

text \<open>
  What \<^verbatim>\<open>handlePostRide\<close> does on a form whose numbers are missing or in range. It
  shows the validation notice and stores nothing when \<^verbatim>\<open>from\<close>, \<^verbatim>\<open>to\<close> or
  \<^verbatim>\<open>startTime\<close> is empty or the number of seats or the price is 0 or not a number; a
  caller who is not a driver never stores anything; when the three strings are
  present, the seats are at least 1 and the price is positive, a caller who is not a
  driver gets the permission notice and a driver stores a new ride whose status is
  \<open>active\<close> and whose route is \<^verbatim>\<open>from\<close>, the non-blank stops in order, \<^verbatim>\<open>to\<close>.
\<close>

lemma handlePostRide_spec:
  "(rd_from d = [] \<or> rd_to d = [] \<or> rd_startTime d = []
      \<or> rd_availableSeats d = None \<or> rd_availableSeats d = Some 0
      \<or> rd_pricePerSeat d = None \<or> rd_pricePerSeat d = Some 0
     \<longrightarrow> handlePostRide d s = (FillRideDetails, s))
   \<and> (cu_userType (currentUser s) \<noteq> ''driver''
     \<longrightarrow> snd (handlePostRide d s) = s
         \<and> (fst (handlePostRide d s) = FillRideDetails
              \<or> fst (handlePostRide d s) = OnlyDriversCanPost))
   \<and> (rd_from d \<noteq> [] \<and> rd_to d \<noteq> [] \<and> rd_startTime d \<noteq> []
        \<and> rd_availableSeats d = Some n \<and> 1 \<le> n \<and> rd_pricePerSeat d = Some p \<and> 0 < p
     \<longrightarrow> (cu_userType (currentUser s) \<noteq> ''driver''
           \<longrightarrow> handlePostRide d s = (OnlyDriversCanPost, s))
         \<and> (cu_userType (currentUser s) = ''driver''
           \<longrightarrow> fst (handlePostRide d s) = RidePosted
               \<and> (\<exists>r. db_rides (snd (handlePostRide d s)) = db_rides s @ [(nextId s, r)]
                      \<and> ride_status r = ''active''
                      \<and> ride_route r =
                          Some ([rd_from d] @ filter (\<lambda>x. \<not> list_all isSpace x) (rd_route d)
                                @ [rd_to d])
                      \<and> ride_from r = rd_from d \<and> ride_to r = rd_to d
                      \<and> ride_startTime r = rd_startTime d
                      \<and> ride_availableSeats r = n \<and> ride_pricePerSeat r = p
                      \<and> ride_driverId r = cu_id (currentUser s))))"
proof (intro conjI impI)
  assume "rd_from d = [] \<or> rd_to d = [] \<or> rd_startTime d = []
      \<or> rd_availableSeats d = None \<or> rd_availableSeats d = Some 0
      \<or> rd_pricePerSeat d = None \<or> rd_pricePerSeat d = Some 0"
  then show "handlePostRide d s = (FillRideDetails, s)"
    by (auto simp: handlePostRide_def falsyNumber_def)
next
  assume nd: "cu_userType (currentUser s) \<noteq> ''driver''"
  then show "snd (handlePostRide d s) = s" by (simp add: handlePostRide_def)
  from nd show "fst (handlePostRide d s) = FillRideDetails
              \<or> fst (handlePostRide d s) = OnlyDriversCanPost"
    by (simp add: handlePostRide_def)
next
  assume ok: "rd_from d \<noteq> [] \<and> rd_to d \<noteq> [] \<and> rd_startTime d \<noteq> []
        \<and> rd_availableSeats d = Some n \<and> 1 \<le> n \<and> rd_pricePerSeat d = Some p \<and> 0 < p"
    and "cu_userType (currentUser s) \<noteq> ''driver''"
  then show "handlePostRide d s = (OnlyDriversCanPost, s)"
    by (simp add: handlePostRide_def falsyNumber_def)
next
  assume ok: "rd_from d \<noteq> [] \<and> rd_to d \<noteq> [] \<and> rd_startTime d \<noteq> []
        \<and> rd_availableSeats d = Some n \<and> 1 \<le> n \<and> rd_pricePerSeat d = Some p \<and> 0 < p"
    and dr: "cu_userType (currentUser s) = ''driver''"
  then have eq: "handlePostRide d s =
      (RidePosted, s\<lparr>db_rides := db_rides s @ [(nextId s, newRide d n p (currentUser s))],
                     nextId := Suc (nextId s), currentView := ''myRides''\<rparr>)"
    by (simp add: handlePostRide_def falsyNumber_def addDoc_def)
  then show "fst (handlePostRide d s) = RidePosted" by simp
  have "filter (\<lambda>point. trim point \<noteq> []) (rd_route d)
          = filter (\<lambda>x. \<not> list_all isSpace x) (rd_route d)"
    by (simp add: trim_blank)
  then show "\<exists>r. db_rides (snd (handlePostRide d s)) = db_rides s @ [(nextId s, r)]
                      \<and> ride_status r = ''active''
                      \<and> ride_route r =
                          Some ([rd_from d] @ filter (\<lambda>x. \<not> list_all isSpace x) (rd_route d)
                                @ [rd_to d])
                      \<and> ride_from r = rd_from d \<and> ride_to r = rd_to d
                      \<and> ride_startTime r = rd_startTime d
                      \<and> ride_availableSeats r = n \<and> ride_pricePerSeat r = p
                      \<and> ride_driverId r = cu_id (currentUser s)"
    by (simp add: eq newRide_def)
qed

lemma handlePostRide_spec_example:
  "handlePostRide (rideDraft (Some 0)) driverApp = (FillRideDetails, driverApp)
   \<and> handlePostRide (rideDraft (Some 3)) (riderApp 20) = (OnlyDriversCanPost, riderApp 20)
   \<and> fst (handlePostRide (rideDraft (Some 3)) driverApp) = RidePosted
   \<and> (\<exists>r. db_rides (snd (handlePostRide (rideDraft (Some 3)) driverApp))
            = db_rides driverApp @ [(3, r)]
          \<and> ride_status r = ''active''
          \<and> ride_route r = Some [''Toronto Downtown'', ''Square One'', ''Mississauga''])"
proof -
  have d: "cu_userType (currentUser driverApp) = ''driver''" "nextId driverApp = 3"
    by (simp_all add: driverApp_def dana_def)
  have r: "cu_userType (currentUser (riderApp 20)) \<noteq> ''driver''"
    by (simp add: riderApp_def riley_def)
  have f: "filter (\<lambda>x. \<not> list_all isSpace x) (rd_route (rideDraft (Some 3))) = [''Square One'']"
    by (simp add: rideDraft_def isSpace_def)
  have g: "rd_from (rideDraft k) = ''Toronto Downtown''" "rd_to (rideDraft k) = ''Mississauga''"
    "rd_startTime (rideDraft k) = ''2025-06-01T09:00''" "rd_availableSeats (rideDraft k) = k"
    "rd_pricePerSeat (rideDraft k) = Some 15" for k
    by (simp_all add: rideDraft_def)
  from handlePostRide_spec [of "rideDraft (Some 0)" driverApp]
  have 1: "handlePostRide (rideDraft (Some 0)) driverApp = (FillRideDetails, driverApp)"
    by (simp add: g)
  from handlePostRide_spec [of "rideDraft (Some 3)" "riderApp 20" 3 15] r
  have 2: "handlePostRide (rideDraft (Some 3)) (riderApp 20) = (OnlyDriversCanPost, riderApp 20)"
    by (simp add: g)
  from handlePostRide_spec [of "rideDraft (Some 3)" driverApp 3 15] d
  have 3: "fst (handlePostRide (rideDraft (Some 3)) driverApp) = RidePosted
     \<and> (\<exists>r. db_rides (snd (handlePostRide (rideDraft (Some 3)) driverApp))
            = db_rides driverApp @ [(3, r)]
          \<and> ride_status r = ''active''
          \<and> ride_route r = Some [''Toronto Downtown'', ''Square One'', ''Mississauga''])"
    by (simp add: g f) blast
  from 1 2 3 show ?thesis by simp
qed

text \<open>
  Claim C8 says that \<^verbatim>\<open>handlePostRide\<close> requires at least one available seat and
  fails with the validation notice, storing nothing, otherwise. The code does
  otherwise: the test for a missing field is a test for truthiness, which a negative
  number passes. A driver's form with \<open>- 3\<close> seats gets the notice of success and the
  ride is stored, active, with \<open>- 3\<close> available seats.
\<close>

theorem handlePostRide_negative_seats:
  "cu_userType (currentUser driverApp) = ''driver''
   \<and> rd_availableSeats (rideDraft (Some (- 3))) = Some (- 3)
   \<and> fst (handlePostRide (rideDraft (Some (- 3))) driverApp) = RidePosted
   \<and> map (\<lambda>(i, r). (i, ride_availableSeats r, ride_status r))
         (db_rides (snd (handlePostRide (rideDraft (Some (- 3))) driverApp)))
       = [(0, 1, ''active''), (3, - 3, ''active'')]"
  by (simp add: handlePostRide_def falsyNumber_def addDoc_def newRide_def rideDraft_def
      driverApp_def dana_def torontoRide_def)

subsection \<open>Requesting a ride\<close>

text \<open>The five outcomes of \<^verbatim>\<open>requestRide\<close>.\<close>

lemma requestRide_outcome:
  "requestRide rideId s = (OnlyRidersCanRequest, s)
   \<or> requestRide rideId s = (RideNotFound, s)
   \<or> requestRide rideId s = (NoSeatsAvailable, s)
   \<or> (find (\<lambda>(j, req). existingRequest rideId (cu_id (currentUser s)) req) (rideRequests s)
         \<noteq> None
       \<and> requestRide rideId s = (AlreadyRequested, s))
   \<or> (find (\<lambda>(j, req). existingRequest rideId (cu_id (currentUser s)) req) (rideRequests s)
         = None
       \<and> (\<exists>i ride. find (\<lambda>(i, r). i = rideId) (rides s) = Some (i, ride)
              \<and> requestRide rideId s =
                  (RequestSent,
                   s\<lparr>db_requests :=
                       db_requests s @ [(nextId s, newRequest rideId (currentUser s) ride)],
                     nextId := Suc (nextId s)\<rparr>)))"
proof (cases "cu_userType (currentUser s) = ''rider''")
  case False
  then show ?thesis by (simp add: requestRide_def)
next
  case rider: True
  show ?thesis
  proof (cases "find (\<lambda>(i, r). i = rideId) (rides s)")
    case None
    with rider show ?thesis by (simp add: requestRide_def)
  next
    case (Some p)
    obtain i ride where p: "p = (i, ride)" by (cases p)
    show ?thesis
    proof (cases "ride_availableSeats ride \<le> 0")
      case True
      with rider Some p show ?thesis by (simp add: requestRide_def)
    next
      case seats: False
      show ?thesis
      proof (cases "find (\<lambda>(j, req). existingRequest rideId (cu_id (currentUser s)) req)
                      (rideRequests s)")
        case None
        with rider Some p seats show ?thesis
          by (simp add: requestRide_def Let_def addDoc_def)
      next
        case found: (Some a)
        with rider Some p seats show ?thesis
          by (simp add: requestRide_def)
      qed
    qed
  qed
qed

lemma requestRide_existing:
  assumes "(j, q) \<in> set (rideRequests s)"
    and "existingRequest rideId (cu_id (currentUser s)) q"
  shows "snd (requestRide rideId s) = s"
    and "fst (requestRide rideId s)
           \<in> {OnlyRidersCanRequest, RideNotFound, NoSeatsAvailable, AlreadyRequested}"
proof -
  have "find (\<lambda>(j, req). existingRequest rideId (cu_id (currentUser s)) req) (rideRequests s)
          \<noteq> None"
    using assms by (auto simp: find_None_iff)
  with requestRide_outcome [of rideId s]
  show "snd (requestRide rideId s) = s"
    and "fst (requestRide rideId s)
           \<in> {OnlyRidersCanRequest, RideNotFound, NoSeatsAvailable, AlreadyRequested}"
    by auto
qed

lemma requestRide_sent:
  assumes "fst (requestRide rideId s) = RequestSent"
  shows "\<exists>q. snd (requestRide rideId s) =
            s\<lparr>db_requests := db_requests s @ [(nextId s, q)], nextId := Suc (nextId s)\<rparr>
          \<and> req_rideId q = Some rideId \<and> req_riderId q = cu_id (currentUser s)
          \<and> req_status q = ''pending''"
  using assms requestRide_outcome [of rideId s] by (auto simp: newRequest_def)

text \<open>
  Claim C4, as amended. When the rider's view of the requests holds a request of
  theirs for the ride that is pending or accepted, \<^verbatim>\<open>requestRide\<close> for that ride is
  rejected with a notice and creates nothing. So when a first call has sent a request,
  it has added exactly one pending request to the store, and a second call for the
  same ride, made once the listener has delivered the store's requests, is rejected
  and creates nothing; the notice is the one for a duplicate when the rider's view of
  the rides was the store's.
\<close>

theorem requestRide_idempotent:
  "((j, q) \<in> set (rideRequests s) \<and> req_rideId q = Some rideId
      \<and> req_riderId q = cu_id (currentUser s)
      \<and> (req_status q = ''pending'' \<or> req_status q = ''accepted'')
     \<longrightarrow> snd (requestRide rideId s) = s
         \<and> fst (requestRide rideId s)
             \<in> {OnlyRidersCanRequest, RideNotFound, NoSeatsAvailable, AlreadyRequested})
   \<and> (fst (requestRide rideId s) = RequestSent
     \<longrightarrow> (\<exists>new. db_requests (snd (requestRide rideId s)) = db_requests s @ [(nextId s, new)]
              \<and> req_rideId new = Some rideId \<and> req_riderId new = cu_id (currentUser s)
              \<and> req_status new = ''pending'')
         \<and> snd (requestRide rideId (onSnapshot (snd (requestRide rideId s))))
             = onSnapshot (snd (requestRide rideId s))
         \<and> fst (requestRide rideId (onSnapshot (snd (requestRide rideId s))))
             \<in> {OnlyRidersCanRequest, RideNotFound, NoSeatsAvailable, AlreadyRequested}
         \<and> (rides s = db_rides s
              \<longrightarrow> fst (requestRide rideId (onSnapshot (snd (requestRide rideId s))))
                    = AlreadyRequested))"
proof (intro conjI impI)
  assume a: "(j, q) \<in> set (rideRequests s) \<and> req_rideId q = Some rideId
      \<and> req_riderId q = cu_id (currentUser s)
      \<and> (req_status q = ''pending'' \<or> req_status q = ''accepted'')"
  then have e: "existingRequest rideId (cu_id (currentUser s)) q"
    by (simp add: existingRequest_def)
  from a e show "snd (requestRide rideId s) = s"
    using requestRide_existing(1) by blast
  from a e show "fst (requestRide rideId s)
             \<in> {OnlyRidersCanRequest, RideNotFound, NoSeatsAvailable, AlreadyRequested}"
    using requestRide_existing(2) by blast
next
  assume sent: "fst (requestRide rideId s) = RequestSent"
  then obtain new where new:
    "snd (requestRide rideId s)
       = s\<lparr>db_requests := db_requests s @ [(nextId s, new)], nextId := Suc (nextId s)\<rparr>"
    "req_rideId new = Some rideId" "req_riderId new = cu_id (currentUser s)"
    "req_status new = ''pending''"
    using requestRide_sent by blast
  then have ex_new: "existingRequest rideId (cu_id (currentUser s)) new"
    by (simp add: existingRequest_def)
  let ?s1 = "snd (requestRide rideId s)"
  show "\<exists>new. db_requests ?s1 = db_requests s @ [(nextId s, new)]
              \<and> req_rideId new = Some rideId \<and> req_riderId new = cu_id (currentUser s)
              \<and> req_status new = ''pending''"
    using new by auto
  have view: "(nextId s, new) \<in> set (rideRequests (onSnapshot ?s1))"
    and me: "currentUser (onSnapshot ?s1) = currentUser s"
    and rides: "rides (onSnapshot ?s1) = db_rides s"
    using new(1) by (auto simp: onSnapshot_def Let_def split: option.splits)
  from view ex_new me show "snd (requestRide rideId (onSnapshot ?s1)) = onSnapshot ?s1"
    using requestRide_existing(1) [of "nextId s" new "onSnapshot ?s1" rideId] by simp
  from view ex_new me
  show "fst (requestRide rideId (onSnapshot ?s1))
          \<in> {OnlyRidersCanRequest, RideNotFound, NoSeatsAvailable, AlreadyRequested}"
    using requestRide_existing(2) [of "nextId s" new "onSnapshot ?s1" rideId] by simp
  {
    assume sync: "rides s = db_rides s"
    have ex: "find (\<lambda>(j, req). existingRequest rideId (cu_id (currentUser s)) req)
                (rideRequests (onSnapshot ?s1)) \<noteq> None"
      using view ex_new by (auto simp: find_None_iff)
    from sent have pre: "cu_userType (currentUser s) = ''rider''"
      "\<exists>i ride. find (\<lambda>(i, r). i = rideId) (rides s) = Some (i, ride)
                 \<and> \<not> ride_availableSeats ride \<le> 0"
      by (auto simp: requestRide_def split: if_splits option.splits prod.splits)
    then obtain i ride where ride: "find (\<lambda>(i, r). i = rideId) (rides s) = Some (i, ride)"
      "\<not> ride_availableSeats ride \<le> 0" by blast
    from ex obtain a where a:
      "find (\<lambda>(j, req). existingRequest rideId (cu_id (currentUser s)) req)
         (rideRequests (onSnapshot ?s1)) = Some a" by blast
    from pre(1) ride a sync rides me
    show "fst (requestRide rideId (onSnapshot ?s1)) = AlreadyRequested"
      by (simp add: requestRide_def)
  }
qed

theorem requestRide_idempotent_witness:
  "fst (requestRide 0 (riderApp 20)) = RequestSent
   \<and> length (db_requests (snd (requestRide 0 (riderApp 20)))) = 1
   \<and> fst (requestRide 0 (onSnapshot (snd (requestRide 0 (riderApp 20))))) = AlreadyRequested
   \<and> snd (requestRide 0 (onSnapshot (snd (requestRide 0 (riderApp 20)))))
       = onSnapshot (snd (requestRide 0 (riderApp 20)))"
proof -
  have sent: "fst (requestRide 0 (riderApp 20)) = RequestSent"
    by (simp add: requestRide_def riderApp_def riley_def torontoRide_def)
  have sync: "rides (riderApp 20) = db_rides (riderApp 20)" "db_requests (riderApp 20) = []"
    by (simp_all add: riderApp_def)
  from requestRide_idempotent [of 0 undefined "riderApp 20" 0] sent sync
  show ?thesis by auto
qed

text \<open>
  The claim as it was stated fails: the test for an existing request reads the
  rider's view, not the store. Two calls in a row, with no snapshot delivered between
  them, both show the notice of success and the store ends with two pending requests
  of the rider for the ride.
\<close>

theorem requestRide_twice_counterexample:
  "fst (requestRide 0 (riderApp 20)) = RequestSent
   \<and> fst (requestRide 0 (snd (requestRide 0 (riderApp 20)))) = RequestSent
   \<and> map (\<lambda>(i, q). (i, req_rideId q, req_riderId q, req_status q))
         (db_requests (snd (requestRide 0 (snd (requestRide 0 (riderApp 20))))))
       = [(1, Some 0, ''rider1'', ''pending''), (2, Some 0, ''rider1'', ''pending'')]"
  by (simp add: requestRide_def addDoc_def newRequest_def riderApp_def riley_def torontoRide_def)

subsection \<open>Accepting a request\<close>

text \<open>\<^verbatim>\<open>acceptRequest\<close> on a request and a ride that exist: it tests nothing, marks the
  request accepted and takes one seat off the ride.\<close>

lemma acceptRequest_found:
  assumes "map_of (db_requests s) requestId = Some q"
    and "map_of (db_rides s) rideId = Some r"
  shows "acceptRequest requestId rideId s =
     (RequestAccepted,
      s\<lparr>db_requests :=
          map (\<lambda>(i, x). if i = requestId then (i, x\<lparr>req_status := ''accepted''\<rparr>) else (i, x))
            (db_requests s),
        db_rides :=
          map (\<lambda>(i, x). if i = rideId
                         then (i, x\<lparr>ride_availableSeats := ride_availableSeats r - 1\<rparr>)
                         else (i, x))
            (db_rides s)\<rparr>)"
  using assms by (simp add: acceptRequest_def updateDoc_Some getDoc_def Let_def)

text \<open>
  Claim C1 asks that, on a ride with one free seat and two pending requests, the
  second of two \<^verbatim>\<open>acceptRequest\<close> calls be rejected for want of seats, and that no
  sequence of calls drive the seats below 0. The code does otherwise: on the driver's
  example state both calls show the notice of success, both requests end accepted and
  the ride is left with \<open>- 1\<close> seats.
\<close>

theorem acceptRequest_overbooks:
  "map (\<lambda>(i, r). ride_availableSeats r) (db_rides driverApp) = [1]
   \<and> map (\<lambda>(i, q). req_status q) (db_requests driverApp) = [''pending'', ''pending'']
   \<and> fst (acceptRequest 1 0 driverApp) = RequestAccepted
   \<and> fst (acceptRequest 2 0 (snd (acceptRequest 1 0 driverApp))) = RequestAccepted
   \<and> map (\<lambda>(i, q). req_status q)
         (db_requests (snd (acceptRequest 2 0 (snd (acceptRequest 1 0 driverApp)))))
       = [''accepted'', ''accepted'']
   \<and> map (\<lambda>(i, r). ride_availableSeats r)
         (db_rides (snd (acceptRequest 2 0 (snd (acceptRequest 1 0 driverApp))))) = [- 1]"
  by (simp add: acceptRequest_def updateDoc_def getDoc_def driverApp_def torontoRide_def
      pendingRequest_def)

subsection \<open>Completing a ride\<close>

text \<open>
  Claim C2. Let a request of the rider for the ride be in the store, let the ride and
  the wallets of the driver (the caller) and of the rider exist, the driver's view of
  the own balance being the stored one, and let the rider not be the driver. Then
  \<^verbatim>\<open>acceptRequest\<close> followed by \<^verbatim>\<open>completeRide\<close> with price \<open>p\<close> both succeed, the
  ride's status is \<open>completed\<close>, the request is \<open>completed\<close> and no request of the
  rider for the ride is left \<open>accepted\<close>, the driver's balance has grown by \<open>p\<close> and
  the rider's has shrunk by \<open>p\<close>.
\<close>

theorem accept_then_complete:
  fixes s :: app and requestId rideId :: docid and riderId :: uid and price :: int
  defines "s1 \<equiv> snd (acceptRequest requestId rideId s)"
  defines "s2 \<equiv> snd (completeRide rideId riderId price s1)"
  assumes req: "map_of (db_requests s) requestId = Some q"
    and q: "req_rideId q = Some rideId" "req_riderId q = riderId"
    and ride: "map_of (db_rides s) rideId = Some r"
    and driver: "db_wallets s (cu_id (currentUser s)) = Some driverBalance"
      "wallet s = driverBalance"
    and rider: "db_wallets s riderId = Some riderBalance"
    and distinct: "riderId \<noteq> cu_id (currentUser s)"
  shows "fst (acceptRequest requestId rideId s) = RequestAccepted
       \<and> fst (completeRide rideId riderId price s1) = RideCompleted
       \<and> map_option ride_status (map_of (db_rides s2) rideId) = Some ''completed''
       \<and> map_of (db_requests s2) requestId = Some (q\<lparr>req_status := ''completed''\<rparr>)
       \<and> list_all (\<lambda>(i, x). \<not> riderRequestQuery rideId riderId x) (db_requests s2)
       \<and> db_wallets s2 (cu_id (currentUser s)) = Some (driverBalance + of_int price)
       \<and> db_wallets s2 riderId = Some (riderBalance - of_int price)"
proof -
  let ?reqs = "map (\<lambda>(i, x). if i = requestId then (i, x\<lparr>req_status := ''accepted''\<rparr>)
                              else (i, x)) (db_requests s)"
  let ?rides = "map (\<lambda>(i, x). if i = rideId
                               then (i, x\<lparr>ride_availableSeats := ride_availableSeats r - 1\<rparr>)
                               else (i, x)) (db_rides s)"
  have acc: "acceptRequest requestId rideId s
               = (RequestAccepted, s\<lparr>db_requests := ?reqs, db_rides := ?rides\<rparr>)"
    using req ride by (rule acceptRequest_found)
  then have s1: "s1 = s\<lparr>db_requests := ?reqs, db_rides := ?rides\<rparr>"
    by (simp add: s1_def)
  have ride1: "map_of (db_rides s1) rideId
                 = Some (r\<lparr>ride_availableSeats := ride_availableSeats r - 1\<rparr>)"
    using ride by (simp add: s1 map_of_update_same)
  have req1: "map_of (db_requests s1) requestId = Some (q\<lparr>req_status := ''accepted''\<rparr>)"
    using req by (simp add: s1 map_of_update_same)
  let ?rides2 = "map (\<lambda>(i, x). if i = rideId then (i, x\<lparr>ride_status := ''completed''\<rparr>)
                                else (i, x)) (db_rides s1)"
  let ?reqs2 = "map (\<lambda>(i, x). if riderRequestQuery rideId riderId x
                               then (i, x\<lparr>req_status := ''completed''\<rparr>) else (i, x))
                  (db_requests s1)"
  have comp: "completeRide rideId riderId price s1 =
      (RideCompleted,
       s1\<lparr>db_rides := ?rides2, db_requests := ?reqs2,
          db_wallets := (db_wallets s)(cu_id (currentUser s) \<mapsto> driverBalance + of_int price,
                                      riderId \<mapsto> riderBalance - of_int price)\<rparr>)"
    using ride1 driver rider distinct
    by (simp add: completeRide_def updateDoc_Some Let_def s1)
  then have s2: "s2 = s1\<lparr>db_rides := ?rides2, db_requests := ?reqs2,
          db_wallets := (db_wallets s)(cu_id (currentUser s) \<mapsto> driverBalance + of_int price,
                                      riderId \<mapsto> riderBalance - of_int price)\<rparr>"
    by (simp add: s2_def)
  have a: "map_option ride_status (map_of (db_rides s2) rideId) = Some ''completed''"
    using ride1 by (simp add: s2 map_of_update_same)
  have b: "map_of (db_requests s2) requestId = Some (q\<lparr>req_status := ''completed''\<rparr>)"
    using req1 q by (simp add: s2 map_of_update_other riderRequestQuery_def)
  have c: "list_all (\<lambda>(i, x). \<not> riderRequestQuery rideId riderId x) (db_requests s2)"
  proof -
    have "\<not> riderRequestQuery rideId riderId (x\<lparr>req_status := ''completed''\<rparr>)" for x
      by (simp add: riderRequestQuery_def)
    then have "list_all (\<lambda>(i, x). \<not> riderRequestQuery rideId riderId x) ?reqs2"
      by (rule list_all_updated)
    then show ?thesis by (simp add: s2)
  qed
  have d: "db_wallets s2 (cu_id (currentUser s)) = Some (driverBalance + of_int price)"
    "db_wallets s2 riderId = Some (riderBalance - of_int price)"
    using distinct by (simp_all add: s2)
  from acc comp a b c d show ?thesis by simp
qed

text \<open>The driver accepts the first rider and completes the ride at 15: the balances go
  from 40 to 55 and from 20 to 5.\<close>

theorem accept_then_complete_witness:
  "fst (acceptRequest 1 0 driverApp) = RequestAccepted
   \<and> fst (completeRide 0 ''rider1'' 15 (snd (acceptRequest 1 0 driverApp))) = RideCompleted
   \<and> db_wallets (snd (completeRide 0 ''rider1'' 15 (snd (acceptRequest 1 0 driverApp))))
       ''driver1'' = Some 55
   \<and> db_wallets (snd (completeRide 0 ''rider1'' 15 (snd (acceptRequest 1 0 driverApp))))
       ''rider1'' = Some 5"
proof -
  have req: "map_of (db_requests driverApp) 1 = Some (pendingRequest ''rider1'' ''Riley'')"
    by (simp add: driverApp_def)
  have q: "req_rideId (pendingRequest ''rider1'' ''Riley'') = Some 0"
    "req_riderId (pendingRequest ''rider1'' ''Riley'') = ''rider1''"
    by (simp_all add: pendingRequest_def)
  have ride: "map_of (db_rides driverApp) 0 = Some (torontoRide 1)"
    by (simp add: driverApp_def)
  have me: "cu_id (currentUser driverApp) = ''driver1''"
    by (simp add: driverApp_def dana_def)
  have driver: "db_wallets driverApp (cu_id (currentUser driverApp)) = Some 40"
    "wallet driverApp = 40"
    unfolding me by (simp_all add: driverApp_def)
  have rider: "db_wallets driverApp ''rider1'' = Some 20"
    by (simp add: driverApp_def)
  have ne: "''rider1'' \<noteq> cu_id (currentUser driverApp)"
    unfolding me by simp
  from accept_then_complete [OF req q ride driver rider ne, of 15] show ?thesis
    unfolding me by simp
qed

text \<open>
  Claim C3. In \<^verbatim>\<open>completeRide\<close> the rider is debited only when the rider's wallet
  document exists. When it does not (the ride and the driver's wallet existing, the
  driver's view of the own balance being the stored one), the call still shows the
  notice of success, the driver's balance has grown by the price, and the rider still
  has no wallet: nothing was debited and no error was shown.
\<close>

theorem completeRide_missing_rider_wallet:
  assumes "map_of (db_rides s) rideId = Some r"
    and "db_wallets s (cu_id (currentUser s)) = Some b" and "wallet s = b"
    and "db_wallets s riderId = None"
  shows "fst (completeRide rideId riderId price s) = RideCompleted
       \<and> db_wallets (snd (completeRide rideId riderId price s)) (cu_id (currentUser s))
           = Some (b + of_int price)
       \<and> db_wallets (snd (completeRide rideId riderId price s)) riderId = None"
proof -
  have ne: "riderId \<noteq> cu_id (currentUser s)" using assms by auto
  show ?thesis
    using assms ne
    by (simp add: completeRide_def updateDoc_Some Let_def)
qed

theorem completeRide_missing_rider_wallet_witness:
  "fst (completeRide 0 ''rider2'' 15 driverApp) = RideCompleted
   \<and> db_wallets (snd (completeRide 0 ''rider2'' 15 driverApp)) ''driver1'' = Some 55
   \<and> db_wallets (snd (completeRide 0 ''rider2'' 15 driverApp)) ''rider2'' = None"
proof -
  have me: "cu_id (currentUser driverApp) = ''driver1''"
    by (simp add: driverApp_def dana_def)
  have ride: "map_of (db_rides driverApp) 0 = Some (torontoRide 1)"
    by (simp add: driverApp_def)
  have driver: "db_wallets driverApp (cu_id (currentUser driverApp)) = Some 40"
    "wallet driverApp = 40"
    unfolding me by (simp_all add: driverApp_def)
  have rider: "db_wallets driverApp ''rider2'' = None"
    by (simp add: driverApp_def)
  from completeRide_missing_rider_wallet [OF ride driver rider, of 15] show ?thesis
    unfolding me by simp
qed

subsection \<open>Withdrawing\<close>

text \<open>
  Claim C5, as amended. Let the caller's wallet hold \<open>b\<close> and the caller's view of it
  be \<open>b\<close>. If \<open>0 < a\<close> and \<open>b < a\<close>, \<^verbatim>\<open>handleWithdrawFunds\<close> shows the notice of an
  insufficient balance and changes nothing; if \<open>0 < a \<le> b\<close> it stores \<open>b - a\<close>; if
  \<open>a \<le> 0\<close>, or the amount is not a number, it shows the notice of an invalid amount
  and changes nothing.
\<close>

theorem handleWithdrawFunds_spec:
  assumes "db_wallets s (userId s) = Some b" and "wallet s = b"
  shows "(0 < a \<and> b < a \<longrightarrow> handleWithdrawFunds (Some a) s = (InsufficientBalance, s))
       \<and> (0 < a \<and> a \<le> b \<longrightarrow>
            fst (handleWithdrawFunds (Some a) s) = Withdrew a
            \<and> db_wallets (snd (handleWithdrawFunds (Some a) s)) (userId s) = Some (b - a))
       \<and> (a \<le> 0 \<longrightarrow> handleWithdrawFunds (Some a) s = (EnterValidAmount, s))
       \<and> handleWithdrawFunds None s = (EnterValidAmount, s)"
  using assms by (auto simp: handleWithdrawFunds_def)

text \<open>
  The claim as it was stated fails on a negative balance, which a rider reaches by
  being debited in \<^verbatim>\<open>completeRide\<close>: with balance \<open>- 5\<close> the amount \<open>- 1\<close> is larger
  than the balance, and the notice is the one of an invalid amount, not the one of an
  insufficient balance.
\<close>

theorem handleWithdrawFunds_counterexample:
  "db_wallets (riderApp (- 5)) (userId (riderApp (- 5))) = Some (- 5)
   \<and> wallet (riderApp (- 5)) < - 1
   \<and> fst (handleWithdrawFunds (Some (- 1)) (riderApp (- 5))) = EnterValidAmount
   \<and> fst (handleWithdrawFunds (Some (- 1)) (riderApp (- 5))) \<noteq> InsufficientBalance"
  by (simp add: handleWithdrawFunds_def riderApp_def)

theorem handleWithdrawFunds_spec_witness:
  "handleWithdrawFunds (Some 25) (riderApp 20) = (InsufficientBalance, riderApp 20)
   \<and> fst (handleWithdrawFunds (Some 5) (riderApp 20)) = Withdrew 5
   \<and> db_wallets (snd (handleWithdrawFunds (Some 5) (riderApp 20))) ''rider1'' = Some 15
   \<and> handleWithdrawFunds (Some 0) (riderApp 20) = (EnterValidAmount, riderApp 20)"
proof -
  have me: "userId (riderApp 20) = ''rider1''" by (simp add: riderApp_def)
  have w: "db_wallets (riderApp 20) (userId (riderApp 20)) = Some 20" "wallet (riderApp 20) = 20"
    by (simp_all add: riderApp_def)
  from handleWithdrawFunds_spec [OF w, of 25] handleWithdrawFunds_spec [OF w, of 5]
    handleWithdrawFunds_spec [OF w, of 0]
  show ?thesis unfolding me by simp
qed

end
